theory Spec2Isabelle
  imports Main
begin

section \<open>The Python agent for the Fly CLI (fly\_agent.py)\<close>

text \<open>
  The class \<open>FlyCLIAgent\<close> of \<open>docs/ai-integration/scripts/fly_agent.py\<close> builds an
  argument vector for an operation, runs the external tool with it, and decodes what the
  tool printed. The methods are embedded as functions; an exception is the \<open>Inl\<close> of a sum.
  What the methods call outside the file (the process primitive \<open>subprocess.run\<close>, the
  decoder \<open>json.loads\<close>, \<open>str\<close> of library values, \<open>print\<close>) is a field of the environment
  record \<open>python_env\<close>, so every theorem holds for whatever these functions compute.
  \<open>print_stdout\<close> gives the exception that \<open>print\<close> raises for a line, or \<open>None\<close> when the
  line is written.
\<close>

subsection \<open>Python values and exceptions\<close>

text \<open>
  What \<open>json.loads\<close> returns: \<open>None\<close>, a \<open>bool\<close>, an \<open>int\<close>, a \<open>float\<close> (of an opaque type
  \<open>'f\<close>), a \<open>str\<close>, a \<open>list\<close> or a \<open>dict\<close>. A \<open>dict\<close> is an association list whose keys are
  distinct, as the keys of a Python dictionary are.
\<close>

datatype 'f json =
    JNull
  | JBool bool
  | JInt int
  | JFloat 'f
  | JStr string
  | JArr "'f json list"
  | JObj "(string \<times> 'f json) list"

text \<open>
  The exceptions that occur in the file or reach it from the library. \<open>CalledProcessError\<close>
  carries the return code, the command, and the captured output and error text;
  \<open>UnicodeEncodeError\<close> carries the name of the codec; the others carry their \<open>str\<close>, but
  for \<open>SyntaxError\<close>, whose text depends on the version of Python.
\<close>

datatype py_exception =
    RuntimeError string
  | FileNotFoundError string
  | NotADirectoryError string
  | PermissionError string
  | AttributeError string
  | JSONDecodeError string
  | RecursionError string
  | UnicodeEncodeError string
  | SyntaxError
  | CalledProcessError int "string list" string string
  | OtherException string

text \<open>
  What the operating system does with a command: the process cannot be started and the
  primitive raises, or it runs and exits with a code, its output and its error text.
\<close>

datatype process_outcome =
    SpawnFails py_exception
  | Exits int string string

record 'f python_env =
  spawn :: "string list \<Rightarrow> process_outcome"
  json_loads :: "string \<Rightarrow> py_exception + 'f json"
  str_CalledProcessError :: "int \<Rightarrow> string list \<Rightarrow> string"
  str_value :: "'f json \<Rightarrow> string"
  str_strip :: "string \<Rightarrow> string"
  print_stdout :: "string \<Rightarrow> py_exception option"

text \<open>
  \<open>subprocess.run(cmd, capture_output=True, text=True, check=True)\<close>: with \<open>check=True\<close> a
  non-zero return code is raised as \<open>CalledProcessError\<close>.
\<close>

definition subprocess_run ::
  "'f python_env \<Rightarrow> string list \<Rightarrow> py_exception + (int \<times> string \<times> string)" where
  "subprocess_run env cmd =
     (case spawn env cmd of
        SpawnFails e \<Rightarrow> Inl e
      | Exits rc out err \<Rightarrow>
          if rc \<noteq> 0 then Inl (CalledProcessError rc cmd out err) else Inr (rc, out, err))"

text \<open>The name Python prints for the type of a value, as in its \<open>AttributeError\<close> text.\<close>

fun type_name :: "'f json \<Rightarrow> string" where
  "type_name JNull = ''NoneType''"
| "type_name (JBool b) = ''bool''"
| "type_name (JInt i) = ''int''"
| "type_name (JFloat x) = ''float''"
| "type_name (JStr s) = ''str''"
| "type_name (JArr xs) = ''list''"
| "type_name (JObj kvs) = ''dict''"

text \<open>
  \<open>obj.get(key, default)\<close>: the method exists on a \<open>dict\<close> only; on any other value the
  attribute lookup raises \<open>AttributeError\<close>.
\<close>

definition py_get :: "'f json \<Rightarrow> string \<Rightarrow> 'f json \<Rightarrow> py_exception + 'f json" where
  "py_get obj key dflt =
     (case obj of
        JObj kvs \<Rightarrow> Inr (case map_of kvs key of Some v \<Rightarrow> v | None \<Rightarrow> dflt)
      | _ \<Rightarrow> Inl (AttributeError
                 ([CHR 0x27] @ type_name obj @ [CHR 0x27] @ '' object has no attribute ''
                    @ [CHR 0x27] @ ''get'' @ [CHR 0x27])))"

text \<open>A value inside an f-string: a \<open>str\<close> is inserted as it is, any other value through \<open>str\<close>.\<close>

definition format_value :: "'f python_env \<Rightarrow> 'f json \<Rightarrow> string" where
  "format_value env v = (case v of JStr s \<Rightarrow> s | _ \<Rightarrow> str_value env v)"

text \<open>\<open>sep.join(xs)\<close>.\<close>

fun join :: "string \<Rightarrow> string list \<Rightarrow> string" where
  "join sep [] = []"
| "join sep [x] = x"
| "join sep (x # y # ys) = x @ sep @ join sep (y # ys)"

subsection \<open>The agent\<close>

record FlyCLIAgent =
  fly_command :: string

text \<open>
  The message of \<open>_verify_installation\<close>, two adjacent literals in the source.
\<close>

definition not_found_message :: string where
  "not_found_message =
     ''Fly CLI not found. Please install it with: '' @ ''dart pub global activate fly_cli''"

text \<open>
  \<open>_verify_installation\<close>. The body of the \<open>try\<close> runs the tool with \<open>--version\<close> and
  prints the line that reports the version (the check mark is U+2705, three bytes in
  UTF-8); either statement can raise. The handler turns \<open>CalledProcessError\<close> and
  \<open>FileNotFoundError\<close> into a \<open>RuntimeError\<close>; any other exception passes through. On
  success the result is the line printed.
\<close>

definition check_mark :: string where
  "check_mark = [CHR 0xE2, CHR 0x9C, CHR 0x85]"

definition verify_installation_body ::
  "'f python_env \<Rightarrow> FlyCLIAgent \<Rightarrow> py_exception + string" where
  "verify_installation_body env self =
     (case subprocess_run env [fly_command self, ''--version''] of
        Inl e \<Rightarrow> Inl e
      | Inr (rc, out, err) \<Rightarrow>
          (let line = check_mark @ '' Fly CLI found: '' @ str_strip env out in
           case print_stdout env line of
             Some e \<Rightarrow> Inl e
           | None \<Rightarrow> Inr line))"

definition verify_installation :: "'f python_env \<Rightarrow> FlyCLIAgent \<Rightarrow> py_exception + string" where
  "verify_installation env self =
     (case verify_installation_body env self of
        Inr line \<Rightarrow> Inr line
      | Inl (CalledProcessError rc c out err) \<Rightarrow> Inl (RuntimeError not_found_message)
      | Inl (FileNotFoundError m) \<Rightarrow> Inl (RuntimeError not_found_message)
      | Inl e \<Rightarrow> Inl e)"

text \<open>
  \<open>__init__\<close>: stores the command name and verifies the installation; the agent exists only
  when the verification returns.
\<close>

definition init :: "'f python_env \<Rightarrow> string \<Rightarrow> py_exception + FlyCLIAgent" where
  "init env cmd_name =
     (let self = \<lparr>fly_command = cmd_name\<rparr> in
      case verify_installation env self of
        Inl e \<Rightarrow> Inl e
      | Inr printed \<Rightarrow> Inr self)"

text \<open>The local \<open>cmd\<close> of \<open>_run_command\<close> (line 62).\<close>

definition command_line :: "FlyCLIAgent \<Rightarrow> string list \<Rightarrow> string list" where
  "command_line self args = [fly_command self] @ args @ [''--output'', ''json'']"

text \<open>
  \<open>_run_command\<close>. The body of the outer \<open>try\<close> runs the process and, at line 72, returns
  \<open>json.loads(result.stdout as String)\<close>. The words \<open>as String\<close> are not part of any
  expression of Python, so line 72 is a syntax error and has no value. Python reports the
  error when it compiles the file; the model places it at the line, so that a call that
  reaches line 72 ends in \<open>SyntaxError\<close> and every other statement keeps its meaning. The
  handler for \<open>CalledProcessError\<close> decodes the output of the failed process, and within it
  only \<open>JSONDecodeError\<close> is caught; the handler for \<open>JSONDecodeError\<close> covers the body of
  the outer \<open>try\<close>. Every other exception leaves the method as it is.
\<close>

definition run_command_body :: "'f python_env \<Rightarrow> string list \<Rightarrow> py_exception + 'f json" where
  "run_command_body env cmd =
     (case subprocess_run env cmd of
        Inl e \<Rightarrow> Inl e
      | Inr (rc, out, err) \<Rightarrow> Inl SyntaxError)"

definition called_process_handler ::
  "'f python_env \<Rightarrow> int \<Rightarrow> string list \<Rightarrow> string \<Rightarrow> string \<Rightarrow> py_exception" where
  "called_process_handler env rc c out err =
     (case json_loads env out of
        Inl (JSONDecodeError m) \<Rightarrow> RuntimeError (''Fly CLI command failed: '' @ err)
      | Inl e \<Rightarrow> e
      | Inr error_data \<Rightarrow>
          (case py_get error_data ''error'' (JObj []) of
             Inl e \<Rightarrow> e
           | Inr inner \<Rightarrow>
               (case py_get inner ''message'' (JStr (str_CalledProcessError env rc c)) of
                  Inl e \<Rightarrow> e
                | Inr m \<Rightarrow> RuntimeError (''Fly CLI error: '' @ format_value env m))))"

definition run_command :: "'f python_env \<Rightarrow> FlyCLIAgent \<Rightarrow> string list \<Rightarrow> py_exception + 'f json" where
  "run_command env self args =
     (case run_command_body env (command_line self args) of
        Inr v \<Rightarrow> Inr v
      | Inl (CalledProcessError rc c out err) \<Rightarrow> Inl (called_process_handler env rc c out err)
      | Inl (JSONDecodeError m) \<Rightarrow>
          Inl (RuntimeError (''Invalid JSON response from Fly CLI: '' @ m))
      | Inl e \<Rightarrow> Inl e)"

subsection \<open>The operations\<close>

text \<open>
  Each method builds the local list \<open>args\<close> and passes it to \<open>_run_command\<close>. The list is
  a function of its own (\<open>..._args\<close>); an optional parameter whose default is \<open>None\<close> is
  an \<open>option\<close>. \<open>if platforms:\<close> tests that the list is not empty, \<open>if base_url:\<close> and
  \<open>if command:\<close> that the value is neither \<open>None\<close> nor the empty text.
\<close>

definition create_project_args ::
  "string \<Rightarrow> string \<Rightarrow> string \<Rightarrow> string list option \<Rightarrow> bool \<Rightarrow> string list" where
  "create_project_args name template organization platforms plan =
     (let platforms1 = (case platforms of None \<Rightarrow> [''ios'', ''android''] | Some ps \<Rightarrow> ps);
          args0 = [''create'', name, ''--template'', template, ''--organization'', organization];
          args1 = (if platforms1 \<noteq> [] then args0 @ [''--platforms'', join '','' platforms1]
                   else args0);
          args2 = (if plan then args1 @ [''--plan''] else args1)
      in args2)"

definition add_screen_args :: "string \<Rightarrow> string \<Rightarrow> string \<Rightarrow> bool \<Rightarrow> bool \<Rightarrow> string list" where
  "add_screen_args name feature screen_type with_viewmodel with_tests =
     (let args0 = [''add'', ''screen'', name, ''--feature'', feature, ''--type'', screen_type];
          args1 = (if with_viewmodel then args0 @ [''--with-viewmodel=true''] else args0);
          args2 = (if with_tests then args1 @ [''--with-tests=true''] else args1)
      in args2)"

definition add_service_args ::
  "string \<Rightarrow> string \<Rightarrow> string \<Rightarrow> string option \<Rightarrow> bool \<Rightarrow> bool \<Rightarrow> string list" where
  "add_service_args name feature service_type base_url with_tests with_mocks =
     (let args0 = [''add'', ''service'', name, ''--feature'', feature, ''--type'', service_type];
          args1 = (case base_url of
                     None \<Rightarrow> args0
                   | Some u \<Rightarrow> if u \<noteq> [] then args0 @ [''--base-url'', u] else args0);
          args2 = (if with_tests then args1 @ [''--with-tests=true''] else args1);
          args3 = (if with_mocks then args2 @ [''--with-mocks=true''] else args2)
      in args3)"

definition export_context_args :: "string \<Rightarrow> bool \<Rightarrow> bool \<Rightarrow> bool \<Rightarrow> string list" where
  "export_context_args output_file include_dependencies include_structure include_conventions =
     (let args0 = [''context'', ''export'', ''--output-file'', output_file];
          args1 = (if include_dependencies then args0 @ [''--include-dependencies''] else args0);
          args2 = (if include_structure then args1 @ [''--include-structure''] else args1);
          args3 = (if include_conventions then args2 @ [''--include-conventions''] else args2)
      in args3)"

definition export_schema_args :: "string option \<Rightarrow> string list" where
  "export_schema_args command =
     (let args0 = [''schema'', ''export''] in
      case command of
        None \<Rightarrow> args0
      | Some c \<Rightarrow> if c \<noteq> [] then args0 @ [''--command'', c] else args0)"

text \<open>The public methods of the class, one constructor each, with the arguments of the call.\<close>

datatype operation =
    CreateProject string string string "string list option" bool
  | AddScreen string string string bool bool
  | AddService string string string "string option" bool bool
  | ExportContext string bool bool bool
  | ExportSchema "string option"
  | Doctor
  | Version

fun operation_args :: "operation \<Rightarrow> string list" where
  "operation_args (CreateProject name template organization platforms plan) =
     create_project_args name template organization platforms plan"
| "operation_args (AddScreen name feature screen_type with_viewmodel with_tests) =
     add_screen_args name feature screen_type with_viewmodel with_tests"
| "operation_args (AddService name feature service_type base_url with_tests with_mocks) =
     add_service_args name feature service_type base_url with_tests with_mocks"
| "operation_args (ExportContext output_file deps struct convs) =
     export_context_args output_file deps struct convs"
| "operation_args (ExportSchema command) = export_schema_args command"
| "operation_args Doctor = [''doctor'']"
| "operation_args Version = [''version'']"

definition invoke :: "'f python_env \<Rightarrow> FlyCLIAgent \<Rightarrow> operation \<Rightarrow> py_exception + 'f json" where
  "invoke env self op = run_command env self (operation_args op)"

text \<open>The defaults of the parameters of \<open>create_project\<close> (lines 87 to 90).\<close>

definition default_template :: string where
  "default_template = ''riverpod''"

definition default_organization :: string where
  "default_organization = ''com.example''"

subsection \<open>The error classes of the specification\<close>

text \<open>
  The specification names four classes of failure. The file has one exception class of
  its own use, \<open>RuntimeError\<close>, and tells the classes apart by the text of the message:
  the literals of lines 46, 78, 80 and 82. \<open>classify\<close> reads the class off an exception
  that leaves the agent; an exception that is not one of these \<open>RuntimeError\<close>s has no
  class. No statement of the file produces the class \<open>ToolNotInvocable\<close>.
\<close>

datatype bridge_error =
    ToolNotInstalled
  | ToolNotInvocable
  | ToolReportedError
  | InvalidSuccessPayload

definition starts_with :: "string \<Rightarrow> string \<Rightarrow> bool" where
  "starts_with p s = (take (length p) s = p)"

definition classify :: "py_exception \<Rightarrow> bridge_error option" where
  "classify e =
     (case e of
        RuntimeError msg \<Rightarrow>
          if msg = not_found_message then Some ToolNotInstalled
          else if starts_with ''Fly CLI error: '' msg then Some ToolReportedError
          else if starts_with ''Fly CLI command failed: '' msg then Some ToolReportedError
          else if starts_with ''Invalid JSON response from Fly CLI: '' msg
            then Some InvalidSuccessPayload
          else None
      | _ \<Rightarrow> None)"

subsection \<open>A scripted environment\<close>

text \<open>
  A concrete environment for evaluating the agent: the machine answers a command line from
  a script (a table from command lines to outcomes) and every other command line with a
  fixed outcome; its standard output takes every line. Floats are carried as the text
  Python prints for them.
\<close>

text \<open>Texts that the scripted tool prints.\<close>

definition ok_text :: string where
  \<open>ok_text = ''{"ok": true}''\<close>

definition boom_text :: string where
  \<open>boom_text = ''{"error": {"message": "boom"}}''\<close>

definition flat_error_text :: string where
  \<open>flat_error_text = ''{"error": "boom"}''\<close>

definition empty_list_text :: string where
  \<open>empty_list_text = ''[]''\<close>

definition version_text :: string where
  "version_text = ''fly_cli 0.1.0'' @ [CHR 0x0A]"

text \<open>One hundred thousand opening brackets: the start of a list nested too deep to decode.\<close>

definition deep_text :: string where
  "deep_text = replicate 100000 (CHR ''['')"

text \<open>What \<open>json.loads\<close> raises on a list nested deeper than the interpreter recurses.\<close>

definition json_recursion_error :: py_exception where
  "json_recursion_error =
     RecursionError (''maximum recursion depth exceeded while decoding ''
       @ ''a JSON array from a unicode string'')"

text \<open>
  The decoder of the scripted environment: the value of \<open>json.loads\<close> on the four JSON
  texts above, the \<open>RecursionError\<close> that it raises on \<open>deep_text\<close>, and on every other
  text the \<open>JSONDecodeError\<close> that it raises on the empty text and on the text \<open>not json\<close>
  (its \<open>str\<close> is the same for both), the only other texts decoded below.
\<close>

definition demo_json_loads :: "string \<Rightarrow> py_exception + string json" where
  "demo_json_loads s =
     (if s = ok_text then Inr (JObj [(''ok'', JBool True)])
      else if s = boom_text then Inr (JObj [(''error'', JObj [(''message'', JStr ''boom'')])])
      else if s = flat_error_text then Inr (JObj [(''error'', JStr ''boom'')])
      else if s = empty_list_text then Inr (JArr [])
      else if s = deep_text then Inl json_recursion_error
      else Inl (JSONDecodeError ''Expecting value: line 1 column 1 (char 0)''))"

text \<open>Decimal digits of a number, and \<open>str\<close> of an \<open>int\<close>.\<close>

fun decimal :: "nat \<Rightarrow> string" where
  "decimal n =
     (if n < 10 then [char_of (48 + n)]
      else decimal (n div 10) @ [char_of (48 + n mod 10)])"

definition str_int :: "int \<Rightarrow> string" where
  "str_int i = (if i < 0 then ''-'' @ decimal (nat (- i)) else decimal (nat i))"

text \<open>
  \<open>repr\<close> of a text of printable characters without quote or backslash, and \<open>str\<close> of a
  list of such texts.
\<close>

definition quoted :: "string \<Rightarrow> string" where
  "quoted s = [CHR 0x27] @ s @ [CHR 0x27]"

definition str_list :: "string list \<Rightarrow> string" where
  "str_list xs = ''['' @ join '', '' (map quoted xs) @ '']''"

text \<open>
  \<open>str\<close> of a \<open>CalledProcessError\<close> with a positive return code (a negative one, the number
  of a signal, is printed by name and is not scripted here).
\<close>

definition demo_str_CalledProcessError :: "int \<Rightarrow> string list \<Rightarrow> string" where
  "demo_str_CalledProcessError rc cmd =
     ''Command '' @ quoted (str_list cmd) @ '' returned non-zero exit status '' @ str_int rc
       @ ''.''"

text \<open>\<open>str\<close> of a decoded value; inside a list or a dictionary a text is quoted.\<close>

fun demo_repr :: "string json \<Rightarrow> string" where
  "demo_repr JNull = ''None''"
| "demo_repr (JBool b) = (if b then ''True'' else ''False'')"
| "demo_repr (JInt i) = str_int i"
| "demo_repr (JFloat x) = x"
| "demo_repr (JStr s) = quoted s"
| "demo_repr (JArr xs) = ''['' @ join '', '' (map demo_repr xs) @ '']''"
| "demo_repr (JObj kvs) =
     ''{'' @ join '', '' (map (\<lambda>kv. quoted (fst kv) @ '': '' @ demo_repr (snd kv)) kvs) @ ''}''"

definition demo_str_value :: "string json \<Rightarrow> string" where
  "demo_str_value v = (case v of JStr s \<Rightarrow> s | _ \<Rightarrow> demo_repr v)"

text \<open>\<open>strip\<close> on a text whose white space is ASCII.\<close>

definition ascii_space :: "char \<Rightarrow> bool" where
  "ascii_space c =
     (c \<in> set [CHR 0x20, CHR 0x09, CHR 0x0A, CHR 0x0B, CHR 0x0C, CHR 0x0D,
                CHR 0x1C, CHR 0x1D, CHR 0x1E, CHR 0x1F])"

definition ascii_strip :: "string \<Rightarrow> string" where
  "ascii_strip s = rev (dropWhile ascii_space (rev (dropWhile ascii_space s)))"

definition scripted_env ::
  "(string list \<times> process_outcome) list \<Rightarrow> process_outcome \<Rightarrow> string python_env" where
  "scripted_env script otherwise =
     \<lparr>spawn = (\<lambda>cmd. case map_of script cmd of Some r \<Rightarrow> r | None \<Rightarrow> otherwise),
      json_loads = demo_json_loads,
      str_CalledProcessError = demo_str_CalledProcessError,
      str_value = demo_str_value,
      str_strip = ascii_strip,
      print_stdout = (\<lambda>line. None)\<rparr>"

text \<open>
  The same machine with a standard output that encodes ASCII only: \<open>print\<close> raises
  \<open>UnicodeEncodeError\<close> for a line with a character outside ASCII.
\<close>

definition ascii_print :: "string \<Rightarrow> py_exception option" where
  "ascii_print line =
     (if list_all (\<lambda>c. (of_char c :: nat) < 128) line then None
      else Some (UnicodeEncodeError ''ascii''))"

definition ascii_stdout_env ::
  "(string list \<times> process_outcome) list \<Rightarrow> process_outcome \<Rightarrow> string python_env" where
  "ascii_stdout_env script otherwise = (scripted_env script otherwise)\<lparr>print_stdout := ascii_print\<rparr>"

definition fly_agent :: FlyCLIAgent where
  "fly_agent = \<lparr>fly_command = ''fly''\<rparr>"

text \<open>The text of the \<open>FileNotFoundError\<close> for a missing executable \<open>fly\<close>.\<close>

definition fly_missing :: py_exception where
  "fly_missing =
     FileNotFoundError (''[Errno 2] No such file or directory: '' @ quoted ''fly'')"

text \<open>
  A machine on which the tool answers the version probe and is gone afterwards: every
  other command line cannot be started.
\<close>

definition removed_after_start :: "string python_env" where
  "removed_after_start =
     scripted_env [([''fly'', ''--version''], Exits 0 (''fly_cli 0.1.0'' @ [CHR 0x0A]) [])]
       (SpawnFails fly_missing)"

text \<open>
  The \<open>NotADirectoryError\<close> of the process primitive when no directory of the search path
  holds \<open>fly\<close> and an entry of the path is a regular file.
\<close>

definition fly_not_a_directory :: py_exception where
  "fly_not_a_directory =
     NotADirectoryError (''[Errno 20] Not a directory: '' @ quoted ''fly'')"

section \<open>Auxiliary facts\<close>

lemma body_exits:
  "spawn env cmd = Exits rc out err \<Longrightarrow>
   run_command_body env cmd =
     (if rc \<noteq> 0 then Inl (CalledProcessError rc cmd out err) else Inl SyntaxError)"
  by (simp add: run_command_body_def subprocess_run_def)

lemma body_spawn_fails:
  "spawn env cmd = SpawnFails e \<Longrightarrow> run_command_body env cmd = Inl e"
  by (simp add: run_command_body_def subprocess_run_def)

lemma scripted_spawn [simp]:
  "spawn (scripted_env script otherwise) cmd =
     (case map_of script cmd of Some r \<Rightarrow> r | None \<Rightarrow> otherwise)"
  by (simp add: scripted_env_def)

lemma scripted_loads [simp]: "json_loads (scripted_env script otherwise) = demo_json_loads"
  by (simp add: scripted_env_def)

lemma scripted_strip [simp]: "str_strip (scripted_env script otherwise) = ascii_strip"
  by (simp add: scripted_env_def)

lemma scripted_print [simp]: "print_stdout (scripted_env script otherwise) line = None"
  by (simp add: scripted_env_def)

lemma ascii_stdout_spawn [simp]:
  "spawn (ascii_stdout_env script otherwise) = spawn (scripted_env script otherwise)"
  by (simp add: ascii_stdout_env_def)

lemma ascii_stdout_strip [simp]: "str_strip (ascii_stdout_env script otherwise) = ascii_strip"
  by (simp add: ascii_stdout_env_def scripted_env_def)

lemma ascii_stdout_print [simp]: "print_stdout (ascii_stdout_env script otherwise) = ascii_print"
  by (simp add: ascii_stdout_env_def)

lemma length_deep_text [simp]: "length deep_text = 100000"
  by (simp add: deep_text_def)

lemma short_text_not_deep [simp]: "length s < 100000 \<Longrightarrow> (s = deep_text) = False"
  by auto

lemma deep_text_not_short [simp]: "length s < 100000 \<Longrightarrow> (deep_text = s) = False"
  by auto

lemmas demo_texts = ok_text_def boom_text_def flat_error_text_def empty_list_text_def

section \<open>Argument vectors\<close>


text \<open>
  C7, as the claim states it, fails: \<open>create_project\<close> called with the template at its
  default \<open>riverpod\<close> emits the token \<open>--template\<close>, and \<open>add_screen\<close> called with
  \<open>with_viewmodel\<close> at its default \<open>True\<close> emits \<open>--with-viewmodel=true\<close>. Neither option is
  one the specification lists as always emitted.
\<close>

theorem default_valued_flags_emitted:
  "default_template = ''riverpod''
   \<and> ''--template'' \<in> set (command_line fly_agent
        (create_project_args ''my_app'' default_template default_organization None False))
   \<and> ''--with-viewmodel=true'' \<in> set (command_line fly_agent
        (add_screen_args ''home'' ''auth'' ''generic'' True True))"
  by (simp add: command_line_def create_project_args_def add_screen_args_def
      default_template_def)

text \<open>
  C7, amended. The flag of an option at its default is absent for the three options whose
  default is \<open>False\<close> or \<open>None\<close>: \<open>plan\<close> of \<open>create_project\<close>, \<open>base_url\<close> of \<open>add_service\<close>
  and \<open>command\<close> of \<open>export_schema\<close>, provided that no token the caller supplies is that
  flag itself. The flags of the text options (\<open>--template\<close>, \<open>--organization\<close>, \<open>--type\<close>,
  \<open>--output-file\<close>) are emitted whatever the value, and the flag of each boolean option
  whose default is \<open>True\<close> is emitted when the option is \<open>True\<close>.
\<close>

theorem sparse_encoding_of_false_and_none_defaults:
  assumes "''--plan'' \<notin> set [fly_command self, name, template, organization,
                              join '','' (case platforms of None \<Rightarrow> [''ios'', ''android'']
                                                          | Some ps \<Rightarrow> ps)]"
    and "''--base-url'' \<notin> set [fly_command self, sname, feature, service_type]"
    and "''--command'' \<notin> set [fly_command self]"
  shows "''--plan'' \<notin> set (command_line self
            (create_project_args name template organization platforms False))
    \<and> ''--base-url'' \<notin> set (command_line self
            (add_service_args sname feature service_type None with_tests with_mocks))
    \<and> ''--command'' \<notin> set (command_line self (export_schema_args None))
    \<and> ''--template'' \<in> set (command_line self
            (create_project_args name template organization platforms plan))
    \<and> ''--organization'' \<in> set (command_line self
            (create_project_args name template organization platforms plan))
    \<and> ''--type'' \<in> set (command_line self
            (add_screen_args sname feature screen_type with_viewmodel with_tests))
    \<and> ''--type'' \<in> set (command_line self
            (add_service_args sname feature service_type base_url with_tests with_mocks))
    \<and> ''--output-file'' \<in> set (command_line self
            (export_context_args output_file deps struct convs))
    \<and> ''--with-viewmodel=true'' \<in> set (command_line self
            (add_screen_args sname feature screen_type True with_tests))
    \<and> ''--with-tests=true'' \<in> set (command_line self
            (add_screen_args sname feature screen_type with_viewmodel True))
    \<and> ''--with-tests=true'' \<in> set (command_line self
            (add_service_args sname feature service_type base_url True with_mocks))
    \<and> ''--with-mocks=true'' \<in> set (command_line self
            (add_service_args sname feature service_type base_url with_tests True))
    \<and> ''--include-dependencies'' \<in> set (command_line self
            (export_context_args output_file True struct convs))
    \<and> ''--include-structure'' \<in> set (command_line self
            (export_context_args output_file deps True convs))
    \<and> ''--include-conventions'' \<in> set (command_line self
            (export_context_args output_file deps struct True))"
proof -
  have p: "''--plan'' \<notin> set (command_line self
            (create_project_args name template organization platforms False))"
    using assms(1) by (auto simp: command_line_def create_project_args_def Let_def)
  have b: "''--base-url'' \<notin> set (command_line self
            (add_service_args sname feature service_type None with_tests with_mocks))"
    using assms(2) by (auto simp: command_line_def add_service_args_def Let_def)
  have c: "''--command'' \<notin> set (command_line self (export_schema_args None))"
    using assms(3) by (auto simp: command_line_def export_schema_args_def Let_def)
  have create: "''--template'' \<in> set (command_line self
            (create_project_args name template organization platforms plan))"
    "''--organization'' \<in> set (command_line self
            (create_project_args name template organization platforms plan))"
    by (simp_all add: command_line_def create_project_args_def Let_def)
  have screen: "''--type'' \<in> set (command_line self
            (add_screen_args sname feature screen_type with_viewmodel with_tests))"
     "''--with-viewmodel=true'' \<in> set (command_line self
            (add_screen_args sname feature screen_type True with_tests))"
     "''--with-tests=true'' \<in> set (command_line self
            (add_screen_args sname feature screen_type with_viewmodel True))"
    by (simp_all add: command_line_def add_screen_args_def Let_def)
  have service: "''--type'' \<in> set (command_line self
            (add_service_args sname feature service_type base_url with_tests with_mocks))"
    "''--with-tests=true'' \<in> set (command_line self
            (add_service_args sname feature service_type base_url True with_mocks))"
    "''--with-mocks=true'' \<in> set (command_line self
            (add_service_args sname feature service_type base_url with_tests True))"
    by (simp_all add: command_line_def add_service_args_def Let_def split: option.split)
  have exported: "''--output-file'' \<in> set (command_line self
            (export_context_args output_file deps struct convs))"
    "''--include-dependencies'' \<in> set (command_line self
            (export_context_args output_file True struct convs))"
    "''--include-structure'' \<in> set (command_line self
            (export_context_args output_file deps True convs))"
    "''--include-conventions'' \<in> set (command_line self
            (export_context_args output_file deps struct True))"
    by (simp_all add: command_line_def export_context_args_def Let_def)
  from p b c create screen service exported show ?thesis by blast
qed

text \<open>
  C7, amended, at concrete calls: a project \<open>my_app\<close> created with every default, a service
  \<open>api_client\<close> added without a base URL, the schema exported for every command.
\<close>

theorem sparse_encoding_of_false_and_none_defaults_witness:
  "''--plan'' \<notin> set (command_line fly_agent
      (create_project_args ''my_app'' ''riverpod'' ''com.example'' None False))
   \<and> ''--base-url'' \<notin> set (command_line fly_agent
      (add_service_args ''api_client'' ''auth'' ''api'' None True True))
   \<and> ''--command'' \<notin> set (command_line fly_agent (export_schema_args None))
   \<and> ''--template'' \<in> set (command_line fly_agent
      (create_project_args ''my_app'' ''riverpod'' ''com.example'' None False))"
  using sparse_encoding_of_false_and_none_defaults
    [where self = fly_agent and name = "''my_app''" and template = "''riverpod''"
       and organization = "''com.example''" and platforms = None and plan = False
       and sname = "''api_client''" and feature = "''auth''" and service_type = "''api''"
       and with_tests = True and with_mocks = True]
  by (simp add: fly_agent_def)

text \<open>
  C8, as the claim states it, fails: for the project \<open>my_app\<close> with template \<open>riverpod\<close>,
  organization \<open>com.example\<close> and platforms \<open>ios\<close>, \<open>android\<close>, what follows the executable
  in the command line is not the vector of the claim.
\<close>

theorem create_project_example_keeps_template:
  "default_template = ''riverpod'' \<and> default_organization = ''com.example''
   \<and> tl (command_line fly_agent
         (create_project_args ''my_app'' default_template default_organization
            (Some [''ios'', ''android'']) False))
     \<noteq> [''create'', ''my_app'', ''--organization'', ''com.example'',
         ''--platforms'', ''ios,android'', ''--output'', ''json'']"
  by (simp add: command_line_def create_project_args_def default_template_def
      default_organization_def fly_agent_def)

text \<open>
  C8, amended. The command line of that call is the executable followed by
  \<open>create my_app --template riverpod --organization com.example --platforms ios,android
  --output json\<close>: the template flag is emitted, and the platforms are joined by commas
  into one token. Leaving the platforms out of the call gives the same vector.
\<close>

theorem create_project_example_command_line:
  "command_line self
     (create_project_args ''my_app'' default_template default_organization
        (Some [''ios'', ''android'']) False)
     = fly_command self #
       [''create'', ''my_app'', ''--template'', ''riverpod'', ''--organization'', ''com.example'',
        ''--platforms'', ''ios,android'', ''--output'', ''json'']
   \<and> create_project_args ''my_app'' default_template default_organization None False
     = create_project_args ''my_app'' default_template default_organization
         (Some [''ios'', ''android'']) False"
  by (simp add: command_line_def create_project_args_def default_template_def
      default_organization_def)


section \<open>Execution and decoding\<close>

text \<open>Whatever a process that exits with code 0 prints, the call ends at line 72.\<close>

lemma zero_exit_reaches_line_72:
  "spawn env (command_line self args) = Exits 0 out err \<Longrightarrow>
   run_command env self args = Inl SyntaxError"
  by (simp add: run_command_def body_exits)

text \<open>
  C2, evaluated where it fails. The tool exits with 0 and prints the JSON object
  \<open>{"ok": true}\<close>, which \<open>json.loads\<close> decodes. The \<open>doctor\<close> operation reaches line 72,
  whose stray \<open>as String\<close> is a syntax error: the call ends in \<open>SyntaxError\<close>, an
  exception without a class, and returns no decoded object.
\<close>

theorem valid_json_success_ends_in_syntax_error:
  "spawn (scripted_env [] (Exits 0 ok_text [])) (command_line fly_agent (operation_args Doctor))
     = Exits 0 ok_text []
   \<and> json_loads (scripted_env [] (Exits 0 ok_text [])) ok_text
     = Inr (JObj [(''ok'', JBool True)])
   \<and> invoke (scripted_env [] (Exits 0 ok_text [])) fly_agent Doctor = Inl SyntaxError
   \<and> classify SyntaxError = None"
  by (simp add: invoke_def run_command_def body_exits demo_json_loads_def classify_def)

text \<open>
  C3, evaluated where it fails. The tool exits with 0 and prints nothing; \<open>json.loads\<close>
  rejects the empty text. The handler of line 81 would raise the \<open>RuntimeError\<close> of class
  \<open>InvalidSuccessPayload\<close>, but the call ends at line 72 before any text is decoded: the
  result is \<open>SyntaxError\<close>, not that \<open>RuntimeError\<close>.
\<close>

theorem empty_success_ends_in_syntax_error:
  "spawn (scripted_env [] (Exits 0 [] [])) (command_line fly_agent (operation_args Doctor))
     = Exits 0 [] []
   \<and> json_loads (scripted_env [] (Exits 0 [] [])) []
     = Inl (JSONDecodeError ''Expecting value: line 1 column 1 (char 0)'')
   \<and> invoke (scripted_env [] (Exits 0 [] [])) fly_agent Doctor = Inl SyntaxError
   \<and> invoke (scripted_env [] (Exits 0 [] [])) fly_agent Doctor
     \<noteq> Inl (RuntimeError (''Invalid JSON response from Fly CLI: ''
            @ ''Expecting value: line 1 column 1 (char 0)''))
   \<and> classify SyntaxError \<noteq> Some InvalidSuccessPayload"
  by (simp add: invoke_def run_command_def body_exits demo_json_loads_def demo_texts
      classify_def)

text \<open>
  The two paths of the handler of line 74 that end in a \<open>RuntimeError\<close> of class
  \<open>ToolReportedError\<close>. When the output of the failed process decodes to an object whose
  entry \<open>error\<close> is an object whose entry \<open>message\<close> is the text \<open>m\<close>, the text after the
  literal \<open>Fly CLI error: \<close> is \<open>m\<close>; when the decoder rejects the output with a
  \<open>JSONDecodeError\<close>, the text after the literal \<open>Fly CLI command failed: \<close> is the captured
  error text.
\<close>

lemma tool_reported_error_paths:
  assumes "spawn env (command_line self args) = Exits rc out err" and "rc \<noteq> 0"
  shows "(json_loads env out = Inr (JObj d) \<and> map_of d ''error'' = Some (JObj e)
            \<and> map_of e ''message'' = Some (JStr m)
          \<longrightarrow> run_command env self args = Inl (RuntimeError (''Fly CLI error: '' @ m))
            \<and> classify (RuntimeError (''Fly CLI error: '' @ m)) = Some ToolReportedError)
    \<and> (json_loads env out = Inl (JSONDecodeError x)
          \<longrightarrow> run_command env self args = Inl (RuntimeError (''Fly CLI command failed: '' @ err))
            \<and> classify (RuntimeError (''Fly CLI command failed: '' @ err))
                = Some ToolReportedError)"
  using assms
  by (simp add: run_command_def body_exits called_process_handler_def py_get_def
      format_value_def classify_def starts_with_def not_found_message_def)

text \<open>
  A third path of line 78: the output decodes to an object without an entry \<open>error\<close>, and
  the message is \<open>Fly CLI error: \<close> followed by \<open>str\<close> of the \<open>CalledProcessError\<close>.
\<close>

lemma tool_error_without_error_entry:
  "run_command (scripted_env [] (Exits 1 ok_text ''disk full'')) fly_agent [''doctor'']
     = Inl (RuntimeError (''Fly CLI error: Command '' @ quoted
          (''['' @ quoted ''fly'' @ '', '' @ quoted ''doctor'' @ '', '' @ quoted ''--output''
             @ '', '' @ quoted ''json'' @ '']'')
          @ '' returned non-zero exit status 1.''))"
  by code_simp

text \<open>
  C1, evaluated where it fails. The tool exits with 1, writes \<open>disk full\<close> to its error
  stream and prints one hundred thousand opening brackets, a text that is not JSON.
  \<open>json.loads\<close> gives up with \<open>RecursionError\<close>, which is not a \<open>JSONDecodeError\<close>, so the
  handler of line 79 does not catch it: the exception of the decoder reaches the caller
  as it is, with no class, in place of the \<open>RuntimeError\<close> that carries the error text.
\<close>

theorem decoder_fault_escapes_unclassified:
  "spawn (scripted_env [] (Exits 1 deep_text ''disk full''))
       (command_line fly_agent (operation_args Doctor))
     = Exits 1 deep_text ''disk full''
   \<and> json_loads (scripted_env [] (Exits 1 deep_text ''disk full'')) deep_text
     = Inl json_recursion_error
   \<and> invoke (scripted_env [] (Exits 1 deep_text ''disk full'')) fly_agent Doctor
     = Inl json_recursion_error
   \<and> invoke (scripted_env [] (Exits 1 deep_text ''disk full'')) fly_agent Doctor
     \<noteq> Inl (RuntimeError ''Fly CLI command failed: disk full'')
   \<and> classify json_recursion_error = None"
  by (simp add: invoke_def run_command_def body_exits called_process_handler_def
      demo_json_loads_def demo_texts classify_def json_recursion_error_def)

text \<open>
  C4, evaluated where it fails. The tool answers the version probe, so the agent is
  constructed, and is removed afterwards. The \<open>doctor\<close> operation cannot start the
  process; \<open>_run_command\<close> has no handler for \<open>FileNotFoundError\<close> (the probe has one), so
  the exception of the process primitive leaves the agent as it is, with no class.
\<close>

theorem spawn_failure_escapes_unclassified:
  "init removed_after_start ''fly'' = Inr fly_agent
   \<and> spawn removed_after_start (command_line fly_agent (operation_args Doctor))
       = SpawnFails fly_missing
   \<and> invoke removed_after_start fly_agent Doctor = Inl fly_missing
   \<and> classify fly_missing = None"
  by (simp add: removed_after_start_def init_def verify_installation_def
      verify_installation_body_def subprocess_run_def fly_agent_def invoke_def run_command_def
      body_spawn_fails command_line_def classify_def fly_missing_def)

text \<open>
  C5, evaluated where it fails. The tool exits with 1 and prints the object
  \<open>{"error": "boom"}\<close>, whose \<open>error\<close> is a text and not an object: the second \<open>get\<close> of
  line 78 raises \<open>AttributeError\<close>, which the handler does not catch, so an exception
  without a class reaches the caller. The same happens when the tool prints a JSON value
  that is not an object, such as \<open>[]\<close>.
\<close>

theorem attribute_error_escapes_unclassified:
  "spawn (scripted_env [] (Exits 1 flat_error_text []))
       (command_line fly_agent (operation_args Doctor))
     = Exits 1 flat_error_text []
   \<and> invoke (scripted_env [] (Exits 1 flat_error_text [])) fly_agent Doctor
     = Inl (AttributeError (quoted ''str'' @ '' object has no attribute '' @ quoted ''get''))
   \<and> classify (AttributeError (quoted ''str'' @ '' object has no attribute '' @ quoted ''get''))
     = None
   \<and> invoke (scripted_env [] (Exits 1 empty_list_text [])) fly_agent Doctor
     = Inl (AttributeError (quoted ''list'' @ '' object has no attribute '' @ quoted ''get''))"
  by (simp add: invoke_def run_command_def body_exits called_process_handler_def
      demo_json_loads_def demo_texts py_get_def classify_def quoted_def)

section \<open>The availability probe\<close>

text \<open>
  The paths of the probe that do what its handler is written for. When the process
  primitive raises \<open>FileNotFoundError\<close> or the process exits with a non-zero code, the
  probe, and with it the construction of the agent, raises the \<open>RuntimeError\<close> of class
  \<open>ToolNotInstalled\<close> whose message ends with the install command. When the process exits
  with code 0 and the version line is printed, the probe returns and the agent is
  constructed.
\<close>

lemma verify_installation_paths:
  "(spawn env [fly_command self, ''--version''] = SpawnFails (FileNotFoundError m)
      \<or> (spawn env [fly_command self, ''--version''] = Exits rc out err \<and> rc \<noteq> 0)
    \<longrightarrow> verify_installation env self = Inl (RuntimeError not_found_message)
      \<and> init env (fly_command self) = Inl (RuntimeError not_found_message)
      \<and> classify (RuntimeError not_found_message) = Some ToolNotInstalled
      \<and> (\<exists>front. not_found_message = front @ ''dart pub global activate fly_cli''))
   \<and> (spawn env [fly_command self, ''--version''] = Exits 0 out err
      \<and> print_stdout env (check_mark @ '' Fly CLI found: '' @ str_strip env out) = None
    \<longrightarrow> verify_installation env self
          = Inr (check_mark @ '' Fly CLI found: '' @ str_strip env out)
      \<and> init env (fly_command self) = Inr self)"
  by (auto simp: verify_installation_def verify_installation_body_def init_def
      subprocess_run_def classify_def not_found_message_def)

text \<open>
  C9, evaluated where it fails. First, the tool prints its version and exits with 0, and
  the standard output of the agent encodes ASCII only: the \<open>print\<close> of line 43, whose line
  starts with the check mark, raises \<open>UnicodeEncodeError\<close> inside the \<open>try\<close>; the handler
  does not catch it, so the probe does not return. Second, no directory of the search
  path holds the tool and an entry of the path is a regular file: the process primitive
  raises \<open>NotADirectoryError\<close>, which the handler does not catch either, so the probe
  fails with an exception without a class and without the install command.
\<close>

theorem probe_faults_escape_unclassified:
  "spawn (ascii_stdout_env [] (Exits 0 version_text [])) [fly_command fly_agent, ''--version'']
     = Exits 0 version_text []
   \<and> verify_installation (ascii_stdout_env [] (Exits 0 version_text [])) fly_agent
     = Inl (UnicodeEncodeError ''ascii'')
   \<and> init (ascii_stdout_env [] (Exits 0 version_text [])) ''fly''
     = Inl (UnicodeEncodeError ''ascii'')
   \<and> spawn (scripted_env [] (SpawnFails fly_not_a_directory))
       [fly_command fly_agent, ''--version'']
     = SpawnFails fly_not_a_directory
   \<and> verify_installation (scripted_env [] (SpawnFails fly_not_a_directory)) fly_agent
     = Inl fly_not_a_directory
   \<and> init (scripted_env [] (SpawnFails fly_not_a_directory)) ''fly'' = Inl fly_not_a_directory
   \<and> classify fly_not_a_directory = None"
  by (simp add: verify_installation_def verify_installation_body_def init_def
      subprocess_run_def fly_agent_def ascii_print_def check_mark_def
      fly_not_a_directory_def classify_def)

end
